theory Spec2Isabelle
  imports
    Complex_Main
    "HOL-Library.Char_ord"
    "HOL-Library.List_Lexorder"
    "HOL-Library.Product_Lexorder"
begin

section \<open>Data model\<close>

text \<open>
  The dashboard script \<^verbatim>\<open>app.py\<close> reads one sheet with the columns
  \<^verbatim>\<open>PAIS | CLIENTE | PRODUCTO | FECHA | TOTAL VENDIDO\<close>. A cell of a categorical
  column or of the date column may be blank; pandas then holds \<^verbatim>\<open>NaN\<close> or
  \<^verbatim>\<open>NaT\<close>, modelled as \<open>None\<close>. Category values are
  strings ordered as Python orders \<^verbatim>\<open>str\<close>: lexicographically by character code.
  A \<open>date\<close> is a parsed calendar date, of which the script reads the year and the month
  only.

  Two things the script leaves to pandas and to the sheet, and the model takes as a
  parameter \<open>en\<close>, of which nothing is assumed.

  \<^item> The numbers of the amount column: pandas reads them as \<^verbatim>\<open>int64\<close> or as
    \<^verbatim>\<open>float64\<close>, sums a group in the column's own dtype (wrapping or rounding) and
    takes a mean in \<^verbatim>\<open>float64\<close>. The type \<open>'a\<close> of the amounts and the type
    \<open>'b\<close> of the averages are open; \<open>suma\<close> is the sum of the amounts of one group
    in row order as \<^verbatim>\<open>groupby(...).sum()\<close> computes it, \<open>suma_media\<close> the sum that
    \<^verbatim>\<open>groupby(...).mean()\<close> takes of the entries of one group, and \<open>dividir\<close>
    its division of that sum by the number of entries.

  \<^item> The years that \<^verbatim>\<open>pd.date_range\<close> accepts beyond the range of nanosecond
    timestamps, \<open>acepta\<close>: this depends on the pandas version (see \<open>soportado\<close>
    below).
\<close>

record ('a, 'b) entorno =
  suma :: "'a list \<Rightarrow> 'a"
  suma_media :: "'a list \<Rightarrow> 'b"
  dividir :: "'b \<Rightarrow> nat \<Rightarrow> 'b"
  acepta :: "int \<Rightarrow> bool"

record date =
  year :: int
  month :: nat
  day :: nat

record 'a venta =
  PAIS :: "string option"
  CLIENTE :: "string option"
  PRODUCTO :: "string option"
  FECHA :: "date option"
  TOTAL_VENDIDO :: 'a

text \<open>
  Lines 34-35 add the columns \<^verbatim>\<open>Mes\<close> and \<^verbatim>\<open>Ano\<close> (here \<open>Anio\<close>) to every row.
\<close>

record 'a fila = "'a venta" +
  Mes :: "nat option"
  Anio :: "int option"

text \<open>
  A pandas column has one dtype. \<^verbatim>\<open>Series.dt.year\<close> yields an integer column when no
  date is missing and a \<^verbatim>\<open>float64\<close> column (the missing entries being
  \<^verbatim>\<open>NaN\<close>) otherwise. The dtype is fixed when line 35 runs on the whole frame and
  is inherited by every frame filtered or grouped from it.
\<close>

datatype dtype = Int64 | Float64

text \<open>A scalar read from such a column: an integer, a float of integral value, or NaN.\<close>

datatype escalar = Entero int | Flotante int | NaN

record seleccion =
  sel_paises :: "string list"
  sel_clientes :: "string list"
  sel_productos :: "string list"

record 'a venta_mensual =
  g_Anio :: int
  g_Mes :: nat
  Ventas_Mensuales :: 'a
  Fecha_Mes :: date

record 'b punto_pronostico =
  p_Fecha_Mes :: date
  p_Mes :: nat
  Pronostico :: "'b option"

record ('a, 'b) salida =
  historico :: "'a venta_mensual list"
  promedios :: "(nat \<times> 'b) list"
  pronostico :: "'b punto_pronostico list"

text \<open>
  The script ends in one of three ways: \<^verbatim>\<open>st.stop()\<close> after a message
  (lines 29-31 and 100-102), an exception that nothing catches, or the end of the file
  with every table computed.
\<close>

datatype aviso = DataFrame_vacio | Sin_datos

datatype excepcion = ValueError

datatype ('a, 'b) resultado = Stopped aviso | Raised excepcion | Completed "('a, 'b) salida"

section \<open>Preprocessing (lines 34-35)\<close>

definition dt_month :: "date option \<Rightarrow> nat option" where
  "dt_month d = map_option month d"

definition dt_year :: "date option \<Rightarrow> int option" where
  "dt_year d = map_option year d"

definition derivar :: "'a venta \<Rightarrow> 'a fila" where
  "derivar r = venta.extend r (fila.fields (dt_month (FECHA r)) (dt_year (FECHA r)))"

definition preprocesar :: "'a venta list \<Rightarrow> 'a fila list" where
  "preprocesar df = map derivar df"

definition anio_dtype :: "'a venta list \<Rightarrow> dtype" where
  "anio_dtype df = (if list_ex (\<lambda>r. FECHA r = None) df then Float64 else Int64)"

section \<open>Cascading filters (lines 43-82)\<close>

definition dropna :: "'a option list \<Rightarrow> 'a list" where
  "dropna col = List.map_filter id col"

text \<open>\<^verbatim>\<open>unique()\<close> keeps the first occurrence of every value, in order of appearance.\<close>

definition unique :: "'a list \<Rightarrow> 'a list" where
  "unique xs = rev (remdups (rev xs))"

text \<open>\<^verbatim>\<open>sorted(col.dropna().unique())\<close>\<close>

definition opciones :: "string option list \<Rightarrow> string list" where
  "opciones col = sort (unique (dropna col))"

text \<open>\<^verbatim>\<open>Series.isin(values)\<close>: a missing cell is in no selection.\<close>

definition isin :: "string option \<Rightarrow> string list \<Rightarrow> bool" where
  "isin v sel = (case v of None \<Rightarrow> False | Some s \<Rightarrow> s \<in> set sel)"

definition todos_paises :: "'a fila list \<Rightarrow> string list" where
  "todos_paises df = opciones (map PAIS df)"

definition df_filtrado_pais :: "'a fila list \<Rightarrow> string list \<Rightarrow> 'a fila list" where
  "df_filtrado_pais df sp = (if sp \<noteq> [] then filter (\<lambda>r. isin (PAIS r) sp) df else df)"

definition clientes_disponibles :: "'a fila list \<Rightarrow> string list \<Rightarrow> string list" where
  "clientes_disponibles df sp = opciones (map CLIENTE (df_filtrado_pais df sp))"

definition df_filtrado_cliente :: "'a fila list \<Rightarrow> string list \<Rightarrow> string list \<Rightarrow> 'a fila list" where
  "df_filtrado_cliente df sp sc =
     (if sc \<noteq> [] then filter (\<lambda>r. isin (CLIENTE r) sc) (df_filtrado_pais df sp)
      else df_filtrado_pais df sp)"

definition productos_disponibles :: "'a fila list \<Rightarrow> string list \<Rightarrow> string list \<Rightarrow> string list" where
  "productos_disponibles df sp sc = opciones (map PRODUCTO (df_filtrado_cliente df sp sc))"

text \<open>The three option lists shown for a selection, in the order the widgets are built.\<close>

definition cascada :: "'a fila list \<Rightarrow> seleccion \<Rightarrow> string list \<times> string list \<times> string list" where
  "cascada df sel =
     (todos_paises df,
      clientes_disponibles df (sel_paises sel),
      productos_disponibles df (sel_paises sel) (sel_clientes sel))"

section \<open>Final filters (lines 86-98)\<close>

definition df_filtrado :: "'a fila list \<Rightarrow> seleccion \<Rightarrow> 'a fila list" where
  "df_filtrado df sel =
     (let d0 = df;
          d1 = (if sel_paises sel \<noteq> [] then filter (\<lambda>r. isin (PAIS r) (sel_paises sel)) d0 else d0);
          d2 = (if sel_clientes sel \<noteq> [] then filter (\<lambda>r. isin (CLIENTE r) (sel_clientes sel)) d1 else d1);
          d3 = (if sel_productos sel \<noteq> [] then filter (\<lambda>r. isin (PRODUCTO r) (sel_productos sel)) d2 else d2)
      in d3)"

section \<open>Monthly aggregation (lines 105-117)\<close>

text \<open>
  \<^verbatim>\<open>groupby(['Ano', 'Mes'])\<close> runs with the defaults \<^verbatim>\<open>dropna=True\<close> and
  \<^verbatim>\<open>sort=True\<close>: a row whose key holds a NaN belongs to no group, and the groups
  come out in ascending key order.
\<close>

definition clave :: "'a fila \<Rightarrow> (int \<times> nat) option" where
  "clave r = (case Anio r of None \<Rightarrow> None
              | Some y \<Rightarrow> (case Mes r of None \<Rightarrow> None | Some m \<Rightarrow> Some (y, m)))"

definition claves :: "'a fila list \<Rightarrow> (int \<times> nat) list" where
  "claves f = sort (unique (dropna (map clave f)))"

definition grupo :: "'a fila list \<Rightarrow> int \<times> nat \<Rightarrow> 'a fila list" where
  "grupo f k = filter (\<lambda>r. clave r = Some k) f"

definition ventas_mensuales_agrupadas ::
  "('a, 'b) entorno \<Rightarrow> 'a fila list \<Rightarrow> 'a venta_mensual list" where
  "ventas_mensuales_agrupadas en f =
     map (\<lambda>k. \<lparr>g_Anio = fst k, g_Mes = snd k,
               Ventas_Mensuales = suma en (map TOTAL_VENDIDO (grupo f k)),
               Fecha_Mes = \<lparr>year = fst k, month = snd k, day = 1\<rparr>\<rparr>) (claves f)"

section \<open>Historical average per calendar month (lines 120-126)\<close>

text \<open>The mean of the entries of one group: their sum divided by their number.\<close>

definition media :: "('a, 'b) entorno \<Rightarrow> 'a list \<Rightarrow> 'b" where
  "media en vs = dividir en (suma_media en vs) (length vs)"

text \<open>
  \<^verbatim>\<open>groupby('Mes')['Ventas Mensuales'].mean()\<close>: one entry per month present, over the
  totals of that month in the order of the monthly totals (ascending year).
\<close>

definition media_por_mes :: "('a, 'b) entorno \<Rightarrow> 'a venta_mensual list \<Rightarrow> (nat \<times> 'b) list" where
  "media_por_mes en g =
     map (\<lambda>m. (m, media en (map Ventas_Mensuales (filter (\<lambda>x. g_Mes x = m) g))))
         (sort (unique (map g_Mes g)))"

definition reindex :: "nat list \<Rightarrow> (nat \<times> 'b) list \<Rightarrow> (nat \<times> 'b option) list" where
  "reindex idx s = map (\<lambda>m. (m, map_of s m)) idx"

definition fillna :: "'b \<Rightarrow> (nat \<times> 'b option) list \<Rightarrow> (nat \<times> 'b) list" where
  "fillna v s = map (\<lambda>(m, x). (m, case x of None \<Rightarrow> v | Some y \<Rightarrow> y)) s"

definition promedios_por_mes ::
  "('a, 'b::zero) entorno \<Rightarrow> 'a venta_mensual list \<Rightarrow> (nat \<times> 'b) list" where
  "promedios_por_mes en g = fillna 0 (reindex [1..<13] (media_por_mes en g))"

section \<open>Forecast for the next year (lines 129-142)\<close>

text \<open>\<^verbatim>\<open>Series.max()\<close>: NaN on an empty column, else the largest entry in the column's dtype.\<close>

definition ultimo_ano :: "dtype \<Rightarrow> 'a venta_mensual list \<Rightarrow> escalar" where
  "ultimo_ano dt g =
     (case map g_Anio g of
        [] \<Rightarrow> NaN
      | y # ys \<Rightarrow> (case dt of Int64 \<Rightarrow> Entero (fold max ys y)
                   | Float64 \<Rightarrow> Flotante (fold max ys y)))"

fun mas_uno :: "escalar \<Rightarrow> escalar" where
  "mas_uno (Entero y) = Entero (y + 1)"
| "mas_uno (Flotante y) = Flotante (y + 1)"
| "mas_uno NaN = NaN"

text \<open>
  \<^verbatim>\<open>pd.date_range(start=f"{proximo_ano}-01-01", end=f"{proximo_ano}-12-01", freq='MS')\<close>.
  The f-string prints an integer year as its digits, a float year with a trailing
  \<^verbatim>\<open>.0\<close> and NaN as \<^verbatim>\<open>nan\<close>. Only the first is a date string; on
  \<^verbatim>\<open>2025.0-01-01\<close> and on \<^verbatim>\<open>nan-01-01\<close> the date parser raises a
  \<^verbatim>\<open>ValueError\<close>, which the script does not catch. (With float year and month
  columns \<^verbatim>\<open>pd.to_datetime\<close> at line 113 may raise the same exception first,
  depending on the pandas version; the script ends in a \<^verbatim>\<open>ValueError\<close> either
  way.) For an integer year the range holds the twelve month starts of that year,
  provided pandas can hold them as timestamps.
\<close>

text \<open>
  Timestamps in nanoseconds, 64 bits wide, reach from 1677-09-21 to 2262-04-11
  (\<^verbatim>\<open>pd.Timestamp.min\<close>, \<^verbatim>\<open>pd.Timestamp.max\<close>): every pandas version builds
  the range of a year from 1678 to 2261. A year of five digits is no date string and
  a calendar has no year below 1: no version builds those. In between, a version that
  keeps the range in nanoseconds raises \<^verbatim>\<open>OutOfBoundsDatetime\<close>, a
  \<^verbatim>\<open>ValueError\<close>, and a version that chooses a coarser unit does not; \<open>acepta\<close>
  says which.
\<close>

definition anio_min :: int where
  "anio_min = 1678"

definition anio_max :: int where
  "anio_max = 2261"

definition soportado :: "('a, 'b) entorno \<Rightarrow> int \<Rightarrow> bool" where
  "soportado en y \<longleftrightarrow>
     (anio_min \<le> y \<and> y \<le> anio_max) \<or> (1 \<le> y \<and> y \<le> 9999 \<and> acepta en y)"

fun meses_futuros :: "('a, 'b) entorno \<Rightarrow> escalar \<Rightarrow> excepcion + date list" where
  "meses_futuros en (Entero y) =
     (if soportado en y
      then Inr (map (\<lambda>m. \<lparr>year = y, month = m, day = 1\<rparr>) [1..<13])
      else Inl ValueError)"
| "meses_futuros en (Flotante y) = Inl ValueError"
| "meses_futuros en NaN = Inl ValueError"

text \<open>\<^verbatim>\<open>Series.map(promedios_por_mes)\<close> looks every month up; a month not found would give NaN.\<close>

definition pronostico_df :: "date list \<Rightarrow> (nat \<times> 'b) list \<Rightarrow> 'b punto_pronostico list" where
  "pronostico_df ms p =
     map (\<lambda>d. \<lparr>p_Fecha_Mes = d, p_Mes = month d, Pronostico = map_of p (month d)\<rparr>) ms"

section \<open>The script as a whole\<close>

definition pipeline ::
  "('a, 'b::zero) entorno \<Rightarrow> 'a venta list \<Rightarrow> seleccion \<Rightarrow> ('a, 'b) resultado" where
  "pipeline en datos sel =
     (if datos = [] then Stopped DataFrame_vacio
      else
        let df = preprocesar datos;
            f = df_filtrado df sel
        in if f = [] then Stopped Sin_datos
           else
             let g = ventas_mensuales_agrupadas en f;
                 p = promedios_por_mes en g;
                 proximo_ano = mas_uno (ultimo_ano (anio_dtype datos) g)
             in case meses_futuros en proximo_ano of
                  Inl e \<Rightarrow> Raised e
                | Inr ms \<Rightarrow> Completed \<lparr>historico = g, promedios = p,
                                       pronostico = pronostico_df ms p\<rparr>)"

text \<open>
  A row satisfies a selection when, on every dimension whose selection is not empty, its
  value is one of the selected values.
\<close>

definition cumple :: "'a fila \<Rightarrow> seleccion \<Rightarrow> bool" where
  "cumple r sel \<longleftrightarrow>
     (sel_paises sel = [] \<or> isin (PAIS r) (sel_paises sel)) \<and>
     (sel_clientes sel = [] \<or> isin (CLIENTE r) (sel_clientes sel)) \<and>
     (sel_productos sel = [] \<or> isin (PRODUCTO r) (sel_productos sel))"

text \<open>Order of dates: by year, then month, then day.\<close>

definition date_key :: "date \<Rightarrow> int \<times> nat \<times> nat" where
  "date_key d = (year d, month d, day d)"

section \<open>Example inputs\<close>

text \<open>
  The amounts of the examples are small whole numbers. Exact arithmetic, with the
  nanosecond range of years, is one value the parameter can take; on such amounts the
  sums and means of \<^verbatim>\<open>int64\<close> and \<^verbatim>\<open>float64\<close> agree with it.
\<close>

definition exacta :: "(rat, rat) entorno" where
  "exacta = \<lparr>suma = sum_list, suma_media = sum_list, dividir = (\<lambda>s n. s / of_nat n),
              acepta = (\<lambda>y. False)\<rparr>"

definition sin_filtros :: seleccion where
  "sin_filtros = \<lparr>sel_paises = [], sel_clientes = [], sel_productos = []\<rparr>"

definition sel_US :: seleccion where
  "sel_US = \<lparr>sel_paises = [''US''], sel_clientes = [], sel_productos = []\<rparr>"

definition sel_US_B :: seleccion where
  "sel_US_B = \<lparr>sel_paises = [''US''], sel_clientes = [''B''], sel_productos = []\<rparr>"

definition sel_US_X :: seleccion where
  "sel_US_X = \<lparr>sel_paises = [''US''], sel_clientes = [], sel_productos = [''X'']\<rparr>"

definition ejemplo :: "rat venta list" where
  "ejemplo =
     [\<lparr>PAIS = Some ''US'', CLIENTE = Some ''A'', PRODUCTO = Some ''X'',
       FECHA = Some \<lparr>year = 2023, month = 1, day = 15\<rparr>, TOTAL_VENDIDO = 100\<rparr>,
      \<lparr>PAIS = Some ''US'', CLIENTE = Some ''A'', PRODUCTO = Some ''X'',
       FECHA = Some \<lparr>year = 2023, month = 1, day = 20\<rparr>, TOTAL_VENDIDO = 50\<rparr>,
      \<lparr>PAIS = Some ''US'', CLIENTE = Some ''A'', PRODUCTO = Some ''X'',
       FECHA = Some \<lparr>year = 2024, month = 1, day = 10\<rparr>, TOTAL_VENDIDO = 300\<rparr>]"

definition venta_sin_fecha :: "rat venta" where
  "venta_sin_fecha = \<lparr>PAIS = Some ''US'', CLIENTE = Some ''A'', PRODUCTO = Some ''X'',
                       FECHA = None, TOTAL_VENDIDO = 5\<rparr>"

definition venta_sin_pais :: "rat venta" where
  "venta_sin_pais = \<lparr>PAIS = None, CLIENTE = Some ''B'', PRODUCTO = Some ''Z'',
                      FECHA = Some \<lparr>year = 2023, month = 2, day = 10\<rparr>, TOTAL_VENDIDO = 40\<rparr>"

definition venta_PE :: "rat venta" where
  "venta_PE = \<lparr>PAIS = Some ''PE'', CLIENTE = Some ''C'', PRODUCTO = None,
                FECHA = Some \<lparr>year = 2024, month = 3, day = 5\<rparr>, TOTAL_VENDIDO = 10\<rparr>"

definition venta_PE_sin_fecha :: "rat venta" where
  "venta_PE_sin_fecha = \<lparr>PAIS = Some ''PE'', CLIENTE = Some ''C'', PRODUCTO = Some ''Y'',
                          FECHA = None, TOTAL_VENDIDO = 10\<rparr>"

definition venta_MX_sin_fecha :: "rat venta" where
  "venta_MX_sin_fecha = \<lparr>PAIS = Some ''MX'', CLIENTE = Some ''D'', PRODUCTO = Some ''W'',
                          FECHA = None, TOTAL_VENDIDO = 5\<rparr>"

definition sel_PE_MX :: seleccion where
  "sel_PE_MX = \<lparr>sel_paises = [''PE'', ''MX''], sel_clientes = [], sel_productos = []\<rparr>"

definition datos_cascada :: "rat venta list" where
  "datos_cascada = ejemplo @ [venta_sin_pais, venta_PE]"

section \<open>Auxiliary facts\<close>

subsection \<open>Option lists and group keys\<close>

lemma set_dropna: "set (dropna col) = {x. Some x \<in> set col}"
  by (induction col) (auto simp: dropna_def List.map_filter_simps split: option.splits)

lemma set_unique: "set (unique xs) = set xs"
  by (simp add: unique_def)

lemma distinct_unique: "distinct (unique xs)"
  by (simp add: unique_def)

lemma set_opciones: "set (opciones col) = {x. Some x \<in> set col}"
  by (simp add: opciones_def set_unique set_dropna)

lemma distinct_opciones: "distinct (opciones col)"
  by (simp add: opciones_def distinct_unique)

lemma sorted_opciones: "sorted (opciones col)"
  by (simp add: opciones_def)

lemma some_set_opciones: "set (map Some (opciones col)) = set col - {None}"
proof -
  have "Some ` {x. Some x \<in> set col} = set col - {None}"
  proof (rule set_eqI)
    fix v show "v \<in> Some ` {x. Some x \<in> set col} \<longleftrightarrow> v \<in> set col - {None}"
      by (cases v) auto
  qed
  then show ?thesis by (simp add: set_opciones)
qed

lemma set_claves: "set (claves f) = {k. \<exists>r \<in> set f. clave r = Some k}"
  by (force simp: claves_def set_unique set_dropna)

lemma distinct_claves: "distinct (claves f)"
  by (simp add: claves_def distinct_unique)

lemma sorted_claves: "sorted (claves f)"
  by (simp add: claves_def)

lemma claves_agrupadas:
  "map (\<lambda>g. (g_Anio g, g_Mes g)) (ventas_mensuales_agrupadas en f) = claves f"
  by (simp add: ventas_mensuales_agrupadas_def comp_def)

subsection \<open>Rows after preprocessing and filtering\<close>

lemma campos_derivar:
  "PAIS (derivar v) = PAIS v" "CLIENTE (derivar v) = CLIENTE v" "PRODUCTO (derivar v) = PRODUCTO v"
  "FECHA (derivar v) = FECHA v" "TOTAL_VENDIDO (derivar v) = TOTAL_VENDIDO v"
  by (simp_all add: derivar_def venta.defs fila.defs)

lemma clave_derivar:
  "clave (derivar v) = map_option (\<lambda>d. (year d, month d)) (FECHA v)"
  by (cases "FECHA v")
     (simp_all add: clave_def derivar_def dt_month_def dt_year_def venta.defs fila.defs)

lemma df_filtrado_filter: "df_filtrado df sel = filter (\<lambda>r. cumple r sel) df"
proof -
  have "filter (\<lambda>r. cumple r sel) df =
        filter (\<lambda>r. sel_productos sel = [] \<or> isin (PRODUCTO r) (sel_productos sel))
          (filter (\<lambda>r. sel_clientes sel = [] \<or> isin (CLIENTE r) (sel_clientes sel))
            (filter (\<lambda>r. sel_paises sel = [] \<or> isin (PAIS r) (sel_paises sel)) df))"
    by (simp add: cumple_def conj_commute conj_left_commute)
  then show ?thesis
    by (simp add: df_filtrado_def Let_def)
qed

lemma filtrado_subset: "set (df_filtrado df sel) \<subseteq> set df"
  by (auto simp: df_filtrado_filter)

lemma df_filtrado_pais_filter:
  "df_filtrado_pais df sp = filter (\<lambda>r. sp = [] \<or> isin (PAIS r) sp) df"
  by (simp add: df_filtrado_pais_def)

lemma df_filtrado_cliente_filter:
  "df_filtrado_cliente df sp sc =
     filter (\<lambda>r. (sp = [] \<or> isin (PAIS r) sp) \<and> (sc = [] \<or> isin (CLIENTE r) sc)) df"
  by (simp add: df_filtrado_cliente_def df_filtrado_pais_def conj_commute)

subsection \<open>Sums over groups\<close>

text \<open>
  When the sum of a group is exact (the addition of a commutative monoid, as for
  integers that do not overflow), the monthly totals add up to the amounts of the rows
  that have a year and a month.
\<close>

lemma sum_grupos:
  fixes f :: "('a::comm_monoid_add) fila list"
  shows "finite K \<Longrightarrow>
   (\<Sum>k\<in>K. sum_list (map TOTAL_VENDIDO (grupo f k))) =
   sum_list (map TOTAL_VENDIDO (filter (\<lambda>r. \<exists>k\<in>K. clave r = Some k) f))"
proof (induction f)
  case Nil
  then show ?case by (simp add: grupo_def)
next
  case (Cons r f)
  have split: "(\<Sum>k\<in>K. sum_list (map TOTAL_VENDIDO (grupo (r # f) k))) =
        (\<Sum>k\<in>K. (if clave r = Some k then TOTAL_VENDIDO r else 0)) +
        (\<Sum>k\<in>K. sum_list (map TOTAL_VENDIDO (grupo f k)))"
    unfolding sum.distrib [symmetric] by (rule sum.cong) (simp_all add: grupo_def)
  have delta: "(\<Sum>k\<in>K. (if clave r = Some k then TOTAL_VENDIDO r else 0)) =
        (if \<exists>k\<in>K. clave r = Some k then TOTAL_VENDIDO r else 0)"
  proof (cases "clave r")
    case None
    then show ?thesis by simp
  next
    case (Some k0)
    with Cons.prems show ?thesis by (simp add: sum.delta')
  qed
  show ?case
    unfolding split delta using Cons by simp
qed

lemma conservacion_exacta:
  fixes f :: "('a::comm_monoid_add) fila list"
  assumes "suma en = sum_list"
  shows "sum_list (map Ventas_Mensuales (ventas_mensuales_agrupadas en f)) =
   sum_list (map TOTAL_VENDIDO (filter (\<lambda>r. clave r \<noteq> None) f))"
proof -
  have "sum_list (map Ventas_Mensuales (ventas_mensuales_agrupadas en f)) =
        sum_list (map (\<lambda>k. sum_list (map TOTAL_VENDIDO (grupo f k))) (claves f))"
    by (simp add: ventas_mensuales_agrupadas_def comp_def assms)
  also have "\<dots> = (\<Sum>k\<in>set (claves f). sum_list (map TOTAL_VENDIDO (grupo f k)))"
    by (rule sum_list_distinct_conv_sum_set [OF distinct_claves])
  also have "\<dots> = sum_list (map TOTAL_VENDIDO
                      (filter (\<lambda>r. \<exists>k\<in>set (claves f). clave r = Some k) f))"
    by (rule sum_grupos) simp
  also have "filter (\<lambda>r. \<exists>k\<in>set (claves f). clave r = Some k) f =
             filter (\<lambda>r. clave r \<noteq> None) f"
    by (rule filter_cong) (auto simp: set_claves)
  finally show ?thesis .
qed

lemma agrupadas_fila:
  "r \<in> set f \<Longrightarrow> clave r = Some (y, m) \<Longrightarrow>
   \<lparr>g_Anio = y, g_Mes = m, Ventas_Mensuales = suma en (map TOTAL_VENDIDO (grupo f (y, m))),
     Fecha_Mes = \<lparr>year = y, month = m, day = 1\<rparr>\<rparr> \<in> set (ventas_mensuales_agrupadas en f)"
proof -
  assume "r \<in> set f" "clave r = Some (y, m)"
  then have "(y, m) \<in> set (claves f)" by (auto simp: set_claves)
  then show ?thesis
    unfolding ventas_mensuales_agrupadas_def set_map by (rule rev_image_eqI) simp
qed

lemma agrupadas_vacio_iff:
  "ventas_mensuales_agrupadas en f = [] \<longleftrightarrow> (\<forall>r\<in>set f. clave r = None)"
proof -
  have "ventas_mensuales_agrupadas en f = [] \<longleftrightarrow> set (claves f) = {}"
    by (simp add: ventas_mensuales_agrupadas_def)
  also have "\<dots> \<longleftrightarrow> (\<forall>r\<in>set f. clave r = None)"
    by (auto simp: set_claves) (metis not_None_eq surj_pair)
  finally show ?thesis .
qed

lemma distinct_agrupadas: "distinct (ventas_mensuales_agrupadas en f)"
proof -
  have "distinct (map (\<lambda>g. (g_Anio g, g_Mes g)) (ventas_mensuales_agrupadas en f))"
    by (simp add: claves_agrupadas distinct_claves)
  then show ?thesis by (rule distinct_map [THEN iffD1, THEN conjunct1])
qed

lemma inj_on_clave_agrupadas:
  "inj_on (\<lambda>g. (g_Anio g, g_Mes g)) (set (ventas_mensuales_agrupadas en f))"
proof -
  have "distinct (map (\<lambda>g. (g_Anio g, g_Mes g)) (ventas_mensuales_agrupadas en f))"
    by (simp add: claves_agrupadas distinct_claves)
  then show ?thesis by (rule distinct_map [THEN iffD1, THEN conjunct2])
qed

lemma inj_on_anio_mes:
  "inj_on g_Anio {x \<in> set (ventas_mensuales_agrupadas en f). g_Mes x = m}"
proof (rule inj_onI)
  fix x y
  assume "x \<in> {x \<in> set (ventas_mensuales_agrupadas en f). g_Mes x = m}"
     and "y \<in> {x \<in> set (ventas_mensuales_agrupadas en f). g_Mes x = m}"
     and "g_Anio x = g_Anio y"
  then show "x = y"
    using inj_on_clave_agrupadas [of en f] by (auto dest: inj_onD)
qed

subsection \<open>Monthly averages\<close>

lemma map_fst_promedios: "map fst (promedios_por_mes en g) = [1..<13]"
  by (simp add: promedios_por_mes_def fillna_def reindex_def comp_def)

lemma map_of_media:
  "map_of (media_por_mes en g) m =
     (if m \<in> g_Mes ` set g
      then Some (media en (map Ventas_Mensuales (filter (\<lambda>x. g_Mes x = m) g))) else None)"
  by (simp add: media_por_mes_def map_of_map_restrict restrict_map_def set_unique)

lemma promedios_eq:
  "promedios_por_mes en g =
     map (\<lambda>m. (m, if m \<in> g_Mes ` set g
                   then media en (map Ventas_Mensuales (filter (\<lambda>x. g_Mes x = m) g)) else 0))
         [1..<13]"
  by (simp add: promedios_por_mes_def fillna_def reindex_def map_of_media)

lemma map_of_promedios:
  "m \<in> {1..12} \<Longrightarrow>
   map_of (promedios_por_mes en g) m =
     Some (if m \<in> g_Mes ` set g
           then media en (map Ventas_Mensuales (filter (\<lambda>x. g_Mes x = m) g)) else 0)"
  unfolding promedios_eq by (simp add: map_of_map_restrict restrict_map_def)

text \<open>
  The totals of one month: one for each year that has data for the month, in ascending
  order of the years.
\<close>

lemma anios_del_mes:
  fixes en f m
  defines "g \<equiv> ventas_mensuales_agrupadas en f"
  shows "length (filter (\<lambda>x. g_Mes x = m) g) = card (g_Anio ` {x \<in> set g. g_Mes x = m})"
    and "distinct (map g_Anio (filter (\<lambda>x. g_Mes x = m) g))"
    and "sorted (map g_Anio (filter (\<lambda>x. g_Mes x = m) g))"
proof -
  let ?filas = "{x \<in> set g. g_Mes x = m}"
  have d: "distinct (filter (\<lambda>x. g_Mes x = m) g)"
    unfolding g_def by (simp add: distinct_agrupadas)
  have s: "set (filter (\<lambda>x. g_Mes x = m) g) = ?filas"
    by auto
  have i: "inj_on g_Anio ?filas"
    unfolding g_def by (rule inj_on_anio_mes)
  have "length (filter (\<lambda>x. g_Mes x = m) g) = card ?filas"
    using distinct_card [OF d] s by simp
  also have "\<dots> = card (g_Anio ` ?filas)"
    by (rule card_image [OF i, symmetric])
  finally show "length (filter (\<lambda>x. g_Mes x = m) g) = card (g_Anio ` ?filas)" .
  show "distinct (map g_Anio (filter (\<lambda>x. g_Mes x = m) g))"
    using d i s by (simp add: distinct_map)
  have "sorted (map (\<lambda>x. (g_Anio x, g_Mes x)) g)"
    unfolding g_def by (simp add: claves_agrupadas sorted_claves)
  then have "sorted_wrt (\<lambda>x y. (g_Anio x, g_Mes x) \<le> (g_Anio y, g_Mes y)) g"
    by (simp add: sorted_map)
  then have "sorted_wrt (\<lambda>x y. g_Anio x \<le> g_Anio y) g"
    by (rule sorted_wrt_mono_rel [rotated]) (auto simp: less_eq_prod_def)
  then have "sorted_wrt (\<lambda>x y. g_Anio x \<le> g_Anio y) (filter (\<lambda>x. g_Mes x = m) g)"
    by (rule sorted_wrt_filter)
  then show "sorted (map g_Anio (filter (\<lambda>x. g_Mes x = m) g))"
    by (simp add: sorted_map)
qed

subsection \<open>The forecast step and the whole run\<close>

lemma ultimo_ano_Max:
  "g \<noteq> [] \<Longrightarrow> ultimo_ano Int64 g = Entero (Max (g_Anio ` set g))"
  by (cases g) (simp_all add: ultimo_ano_def Max.set_eq_fold [symmetric])

lemma anio_dtype_Int64: "None \<notin> set (map FECHA datos) \<Longrightarrow> anio_dtype datos = Int64"
  by (auto simp: anio_dtype_def list_ex_iff image_iff) (metis not_None_eq)

lemma anio_dtype_Float64: "None \<in> set (map FECHA datos) \<Longrightarrow> anio_dtype datos = Float64"
  by (force simp: anio_dtype_def list_ex_iff)

lemma pronostico_df_promedios:
  "pronostico_df (map (\<lambda>m. \<lparr>year = y, month = m, day = 1\<rparr>) [1..<13]) (promedios_por_mes en g) =
   map (\<lambda>(m, v). \<lparr>p_Fecha_Mes = \<lparr>year = y, month = m, day = 1\<rparr>, p_Mes = m, Pronostico = Some v\<rparr>)
       (promedios_por_mes en g)"
  unfolding promedios_eq pronostico_df_def
  by (simp add: map_of_map_restrict restrict_map_def comp_def)

lemma fechas_crecientes:
  "sorted_wrt (\<lambda>a b. date_key a < date_key b)
     (map (\<lambda>m. \<lparr>year = y, month = m, day = 1\<rparr>) [1..<13])"
  by (simp add: sorted_wrt_map date_key_def sorted_wrt_iff_nth_less)

lemma pipeline_corre:
  "datos \<noteq> [] \<Longrightarrow> df_filtrado (preprocesar datos) sel \<noteq> [] \<Longrightarrow>
   pipeline en datos sel =
     (case meses_futuros en (mas_uno (ultimo_ano (anio_dtype datos)
               (ventas_mensuales_agrupadas en (df_filtrado (preprocesar datos) sel)))) of
        Inl e \<Rightarrow> Raised e
      | Inr ms \<Rightarrow>
          Completed \<lparr>historico = ventas_mensuales_agrupadas en (df_filtrado (preprocesar datos) sel),
                     promedios = promedios_por_mes en
                       (ventas_mensuales_agrupadas en (df_filtrado (preprocesar datos) sel)),
                     pronostico = pronostico_df ms (promedios_por_mes en
                       (ventas_mensuales_agrupadas en (df_filtrado (preprocesar datos) sel)))\<rparr>)"
  by (simp add: pipeline_def Let_def)

text \<open>
  A row that fails the selection leaves the filtered frame as it was, and with it the
  monthly totals and the monthly averages. The forecast is the same too as long as the
  new row does not change the dtype of the year column.
\<close>

lemma fila_excluida_filtrado:
  "\<not> cumple (derivar r) sel \<Longrightarrow>
   df_filtrado (preprocesar (datos @ [r])) sel = df_filtrado (preprocesar datos) sel"
  by (simp add: df_filtrado_filter preprocesar_def)

lemma fila_excluida_pipeline:
  assumes "\<not> cumple (derivar r) sel" and "datos \<noteq> []"
      and "anio_dtype (datos @ [r]) = anio_dtype datos"
  shows "pipeline en (datos @ [r]) sel = pipeline en datos sel"
  using assms by (simp add: pipeline_def Let_def fila_excluida_filtrado)

lemma flotante_excepcion: "meses_futuros en (mas_uno (ultimo_ano Float64 g)) = Inl ValueError"
  by (cases "map g_Anio g") (simp_all add: ultimo_ano_def)

lemma sin_fechas_excepcion:
  assumes "df_filtrado (preprocesar datos) sel \<noteq> []" and "None \<in> set (map FECHA datos)"
  shows "pipeline en datos sel = Raised ValueError"
proof -
  have d: "datos \<noteq> []" using assms(2) by auto
  show ?thesis
    by (simp add: pipeline_corre [OF d assms(1)] anio_dtype_Float64 [OF assms(2)]
        flotante_excepcion)
qed

text \<open>
  When no row of the sheet lacks a date, the filtered frame is not empty and the year
  after the largest year of the monthly totals is one \<^verbatim>\<open>pd.date_range\<close> builds, the
  run completes and the forecast holds exactly twelve points, one for each calendar
  month 1..12 in this order: the date of the point for month \<open>m\<close> is the first day of
  month \<open>m\<close> of that year, the dates increase strictly, and its value is the value \<open>v\<close>
  of the entry \<open>(m, v)\<close> of the monthly averages.
\<close>

lemma pronostico_doce_meses:
  fixes en :: "('a, 'b::zero) entorno" and datos sel
  defines "g \<equiv> ventas_mensuales_agrupadas en (df_filtrado (preprocesar datos) sel)"
  defines "p \<equiv> promedios_por_mes en g"
  defines "objetivo \<equiv> Max (g_Anio ` set g) + 1"
  defines "fc \<equiv> map (\<lambda>(m, v). \<lparr>p_Fecha_Mes = \<lparr>year = objetivo, month = m, day = 1\<rparr>,
                               p_Mes = m, Pronostico = Some v\<rparr>) p"
  assumes fechas: "None \<notin> set (map FECHA datos)"
      and no_vacio: "df_filtrado (preprocesar datos) sel \<noteq> []"
      and rango: "soportado en objetivo"
  shows "pipeline en datos sel = Completed \<lparr>historico = g, promedios = p, pronostico = fc\<rparr>
       \<and> map fst p = [1..<13]
       \<and> length fc = 12
       \<and> map p_Fecha_Mes fc = map (\<lambda>m. \<lparr>year = objetivo, month = m, day = 1\<rparr>) [1..<13]
       \<and> sorted_wrt (\<lambda>a b. date_key a < date_key b) (map p_Fecha_Mes fc)"
proof -
  let ?f = "df_filtrado (preprocesar datos) sel"
  have datos: "datos \<noteq> []"
    using no_vacio by (auto simp: df_filtrado_filter preprocesar_def)
  have "clave (derivar v) \<noteq> None" if "v \<in> set datos" for v
    using that fechas by (cases "FECHA v") (auto simp: clave_derivar image_iff)
  then have "\<forall>r\<in>set ?f. clave r \<noteq> None"
    using filtrado_subset [of "preprocesar datos" sel] by (auto simp: preprocesar_def)
  then have g: "g \<noteq> []"
    using no_vacio unfolding g_def agrupadas_vacio_iff by (cases ?f) auto
  have u: "mas_uno (ultimo_ano (anio_dtype datos) g) = Entero objetivo"
    by (simp add: anio_dtype_Int64 [OF fechas] ultimo_ano_Max [OF g] objetivo_def)
  have fp: "map fst p = [1..<13]"
    unfolding p_def by (rule map_fst_promedios)
  have mf: "meses_futuros en (mas_uno (ultimo_ano (anio_dtype datos) g)) =
            Inr (map (\<lambda>m. \<lparr>year = objetivo, month = m, day = 1\<rparr>) [1..<13])"
    using rango by (simp only: u meses_futuros.simps if_True)
  have pd: "pronostico_df (map (\<lambda>m. \<lparr>year = objetivo, month = m, day = 1\<rparr>) [1..<13]) p = fc"
    unfolding p_def fc_def by (rule pronostico_df_promedios)
  have run: "pipeline en datos sel = Completed \<lparr>historico = g, promedios = p, pronostico = fc\<rparr>"
    unfolding pipeline_corre [OF datos no_vacio] g_def [symmetric] p_def [symmetric]
    by (simp only: mf sum.case pd)
  have fd: "map p_Fecha_Mes fc = map (\<lambda>m. \<lparr>year = objetivo, month = m, day = 1\<rparr>) (map fst p)"
    by (simp add: fc_def comp_def case_prod_unfold)
  have len: "length fc = 12"
    using arg_cong [OF fp, of length] by (simp add: fc_def)
  show ?thesis
    using run fp len fd fechas_crecientes [of objetivo] by (simp add: fp)
qed

lemma anio_de_cinco_cifras: "10000 \<le> y \<Longrightarrow> meses_futuros en (Entero y) = Inl ValueError"
  by (simp add: soportado_def anio_max_def)

subsection \<open>The example, evaluated\<close>

lemma ej_claves: "claves (preprocesar ejemplo) = [(2023, 1), (2024, 1)]"
  by code_simp

lemma ej_grupos:
  "map TOTAL_VENDIDO (grupo (preprocesar ejemplo) (2023, 1)) = [100, 50]"
  "map TOTAL_VENDIDO (grupo (preprocesar ejemplo) (2024, 1)) = [300]"
  by code_simp+

lemma ej_historico:
  "ventas_mensuales_agrupadas en (preprocesar ejemplo) =
     [\<lparr>g_Anio = 2023, g_Mes = 1, Ventas_Mensuales = suma en [100, 50],
       Fecha_Mes = \<lparr>year = 2023, month = 1, day = 1\<rparr>\<rparr>,
      \<lparr>g_Anio = 2024, g_Mes = 1, Ventas_Mensuales = suma en [300],
       Fecha_Mes = \<lparr>year = 2024, month = 1, day = 1\<rparr>\<rparr>]"
  unfolding ventas_mensuales_agrupadas_def ej_claves
  by (simp only: list.map fst_conv snd_conv ej_grupos)

lemma upt_1_13: "[1..<13] = [1, 2, 3, 4, 5, 6, 7, 8, 9, 10, 11, 12 :: nat]"
  by (simp add: upt_rec)

lemma ej_promedios:
  "promedios_por_mes en (ventas_mensuales_agrupadas en (preprocesar ejemplo)) =
     [(1, dividir en (suma_media en [suma en [100, 50], suma en [300]]) 2),
      (2, 0), (3, 0), (4, 0), (5, 0), (6, 0), (7, 0), (8, 0), (9, 0), (10, 0), (11, 0), (12, 0)]"
  unfolding ej_historico promedios_eq upt_1_13 by (simp add: media_def numeral_2_eq_2)

lemma ej_completo:
  assumes f: "df_filtrado (preprocesar ejemplo) sel = preprocesar ejemplo"
  shows "pipeline en ejemplo sel = Completed
     \<lparr>historico =
        [\<lparr>g_Anio = 2023, g_Mes = 1, Ventas_Mensuales = suma en [100, 50],
          Fecha_Mes = \<lparr>year = 2023, month = 1, day = 1\<rparr>\<rparr>,
         \<lparr>g_Anio = 2024, g_Mes = 1, Ventas_Mensuales = suma en [300],
          Fecha_Mes = \<lparr>year = 2024, month = 1, day = 1\<rparr>\<rparr>],
      promedios =
        [(1, dividir en (suma_media en [suma en [100, 50], suma en [300]]) 2),
         (2, 0), (3, 0), (4, 0), (5, 0), (6, 0), (7, 0), (8, 0), (9, 0), (10, 0), (11, 0), (12, 0)],
      pronostico =
        [\<lparr>p_Fecha_Mes = \<lparr>year = 2025, month = 1, day = 1\<rparr>, p_Mes = 1,
          Pronostico = Some (dividir en (suma_media en [suma en [100, 50], suma en [300]]) 2)\<rparr>,
         \<lparr>p_Fecha_Mes = \<lparr>year = 2025, month = 2, day = 1\<rparr>, p_Mes = 2, Pronostico = Some 0\<rparr>,
         \<lparr>p_Fecha_Mes = \<lparr>year = 2025, month = 3, day = 1\<rparr>, p_Mes = 3, Pronostico = Some 0\<rparr>,
         \<lparr>p_Fecha_Mes = \<lparr>year = 2025, month = 4, day = 1\<rparr>, p_Mes = 4, Pronostico = Some 0\<rparr>,
         \<lparr>p_Fecha_Mes = \<lparr>year = 2025, month = 5, day = 1\<rparr>, p_Mes = 5, Pronostico = Some 0\<rparr>,
         \<lparr>p_Fecha_Mes = \<lparr>year = 2025, month = 6, day = 1\<rparr>, p_Mes = 6, Pronostico = Some 0\<rparr>,
         \<lparr>p_Fecha_Mes = \<lparr>year = 2025, month = 7, day = 1\<rparr>, p_Mes = 7, Pronostico = Some 0\<rparr>,
         \<lparr>p_Fecha_Mes = \<lparr>year = 2025, month = 8, day = 1\<rparr>, p_Mes = 8, Pronostico = Some 0\<rparr>,
         \<lparr>p_Fecha_Mes = \<lparr>year = 2025, month = 9, day = 1\<rparr>, p_Mes = 9, Pronostico = Some 0\<rparr>,
         \<lparr>p_Fecha_Mes = \<lparr>year = 2025, month = 10, day = 1\<rparr>, p_Mes = 10, Pronostico = Some 0\<rparr>,
         \<lparr>p_Fecha_Mes = \<lparr>year = 2025, month = 11, day = 1\<rparr>, p_Mes = 11, Pronostico = Some 0\<rparr>,
         \<lparr>p_Fecha_Mes = \<lparr>year = 2025, month = 12, day = 1\<rparr>, p_Mes = 12, Pronostico = Some 0\<rparr>]\<rparr>"
proof -
  let ?g = "ventas_mensuales_agrupadas en (df_filtrado (preprocesar ejemplo) sel)"
  have h1: "None \<notin> set (map FECHA ejemplo)"
    by (simp add: ejemplo_def)
  have h2: "df_filtrado (preprocesar ejemplo) sel \<noteq> []"
    unfolding f by (simp add: preprocesar_def ejemplo_def)
  have o: "Max (g_Anio ` set ?g) + 1 = 2025"
    unfolding f ej_historico by simp
  have h3: "soportado en (Max (g_Anio ` set ?g) + 1)"
    unfolding o by (simp add: soportado_def anio_min_def anio_max_def)
  have "pipeline en ejemplo sel = Completed
     \<lparr>historico = ?g, promedios = promedios_por_mes en ?g,
      pronostico = map (\<lambda>(m, v). \<lparr>p_Fecha_Mes = \<lparr>year = Max (g_Anio ` set ?g) + 1, month = m, day = 1\<rparr>,
                                  p_Mes = m, Pronostico = Some v\<rparr>) (promedios_por_mes en ?g)\<rparr>"
    using pronostico_doce_meses [OF h1 h2 h3] by (rule conjunct1)
  then show ?thesis
    unfolding o unfolding f ej_promedios unfolding ej_historico by simp
qed

lemma ej_filtros:
  "df_filtrado (preprocesar ejemplo) sin_filtros = preprocesar ejemplo"
  "df_filtrado (preprocesar ejemplo) sel_US = preprocesar ejemplo"
  by code_simp+

section \<open>Properties\<close>

subsection \<open>Forecast Projector\<close>

text \<open>
  C1. The run on the example of the specification (two sales in January 2023 and one in
  January 2024, no filter selected), before and after one more sale with a blank date
  is appended. Without it the run completes: the totals of January 2023 and January
  2024, their mean for January and 0 for the other months, and the twelve points of
  2025. With it the filter keeps the four rows and the monthly totals still hold the
  years 2023 and 2024, so the target year is 2025; but the year column is of dtype
  float, the target year prints as \<^verbatim>\<open>2025.0\<close>, and the run ends in the exception
  raised for that date string, with no forecast point.
\<close>

theorem C1_fila_sin_fecha_sin_pronostico:
  "df_filtrado (preprocesar (ejemplo @ [venta_sin_fecha])) sin_filtros
     = preprocesar (ejemplo @ [venta_sin_fecha]) \<and>
   map (\<lambda>g. (g_Anio g, g_Mes g))
     (ventas_mensuales_agrupadas en (df_filtrado (preprocesar (ejemplo @ [venta_sin_fecha])) sin_filtros))
     = [(2023, 1), (2024, 1)] \<and>
   pipeline en (ejemplo @ [venta_sin_fecha]) sin_filtros = Raised ValueError \<and>
   pipeline en ejemplo sin_filtros = Completed
     \<lparr>historico =
        [\<lparr>g_Anio = 2023, g_Mes = 1, Ventas_Mensuales = suma en [100, 50],
          Fecha_Mes = \<lparr>year = 2023, month = 1, day = 1\<rparr>\<rparr>,
         \<lparr>g_Anio = 2024, g_Mes = 1, Ventas_Mensuales = suma en [300],
          Fecha_Mes = \<lparr>year = 2024, month = 1, day = 1\<rparr>\<rparr>],
      promedios =
        [(1, dividir en (suma_media en [suma en [100, 50], suma en [300]]) 2),
         (2, 0), (3, 0), (4, 0), (5, 0), (6, 0), (7, 0), (8, 0), (9, 0), (10, 0), (11, 0), (12, 0)],
      pronostico =
        [\<lparr>p_Fecha_Mes = \<lparr>year = 2025, month = 1, day = 1\<rparr>, p_Mes = 1,
          Pronostico = Some (dividir en (suma_media en [suma en [100, 50], suma en [300]]) 2)\<rparr>,
         \<lparr>p_Fecha_Mes = \<lparr>year = 2025, month = 2, day = 1\<rparr>, p_Mes = 2, Pronostico = Some 0\<rparr>,
         \<lparr>p_Fecha_Mes = \<lparr>year = 2025, month = 3, day = 1\<rparr>, p_Mes = 3, Pronostico = Some 0\<rparr>,
         \<lparr>p_Fecha_Mes = \<lparr>year = 2025, month = 4, day = 1\<rparr>, p_Mes = 4, Pronostico = Some 0\<rparr>,
         \<lparr>p_Fecha_Mes = \<lparr>year = 2025, month = 5, day = 1\<rparr>, p_Mes = 5, Pronostico = Some 0\<rparr>,
         \<lparr>p_Fecha_Mes = \<lparr>year = 2025, month = 6, day = 1\<rparr>, p_Mes = 6, Pronostico = Some 0\<rparr>,
         \<lparr>p_Fecha_Mes = \<lparr>year = 2025, month = 7, day = 1\<rparr>, p_Mes = 7, Pronostico = Some 0\<rparr>,
         \<lparr>p_Fecha_Mes = \<lparr>year = 2025, month = 8, day = 1\<rparr>, p_Mes = 8, Pronostico = Some 0\<rparr>,
         \<lparr>p_Fecha_Mes = \<lparr>year = 2025, month = 9, day = 1\<rparr>, p_Mes = 9, Pronostico = Some 0\<rparr>,
         \<lparr>p_Fecha_Mes = \<lparr>year = 2025, month = 10, day = 1\<rparr>, p_Mes = 10, Pronostico = Some 0\<rparr>,
         \<lparr>p_Fecha_Mes = \<lparr>year = 2025, month = 11, day = 1\<rparr>, p_Mes = 11, Pronostico = Some 0\<rparr>,
         \<lparr>p_Fecha_Mes = \<lparr>year = 2025, month = 12, day = 1\<rparr>, p_Mes = 12, Pronostico = Some 0\<rparr>]\<rparr>"
proof -
  let ?d = "ejemplo @ [venta_sin_fecha]"
  have a: "df_filtrado (preprocesar ?d) sin_filtros = preprocesar ?d"
    by code_simp
  have "claves (preprocesar ?d) = [(2023, 1), (2024, 1)]"
    by code_simp
  then have b: "map (\<lambda>g. (g_Anio g, g_Mes g))
      (ventas_mensuales_agrupadas en (df_filtrado (preprocesar ?d) sin_filtros)) = [(2023, 1), (2024, 1)]"
    unfolding a by (simp add: claves_agrupadas)
  have n: "df_filtrado (preprocesar ?d) sin_filtros \<noteq> []"
    unfolding a by (simp add: preprocesar_def)
  have m: "None \<in> set (map FECHA ?d)"
    by (simp add: venta_sin_fecha_def)
  have c: "pipeline en ?d sin_filtros = Raised ValueError"
    using n m by (rule sin_fechas_excepcion)
  from a b c ej_completo [OF ej_filtros(1), of en] show ?thesis by (intro conjI)
qed

subsection \<open>Seasonal Averager\<close>

text \<open>
  C2. Let \<open>g\<close> be the monthly totals of a filtered frame and \<open>m\<close> a calendar month in
  1..12. The averages have one entry for each month 1..12, in order. The totals of
  month \<open>m\<close> are one for each year that has data for \<open>m\<close>, in ascending order of the
  years; let \<open>k\<close> be the number of these distinct years. If \<open>k = 0\<close> the average of
  \<open>m\<close> is 0, and if \<open>k \<ge> 1\<close> it is the sum of these \<open>k\<close> totals divided by \<open>k\<close>, sum
  and division being those of the mean in the column's arithmetic. (It holds for the
  empty frame as well.)
\<close>

theorem C2_promedio_por_mes:
  fixes en :: "('a, 'b::zero) entorno" and f m
  defines "g \<equiv> ventas_mensuales_agrupadas en f"
  defines "del_mes \<equiv> filter (\<lambda>x. g_Mes x = m) g"
  defines "k \<equiv> card (g_Anio ` {x \<in> set g. g_Mes x = m})"
  assumes m: "m \<in> {1..12}"
  shows "map fst (promedios_por_mes en g) = [1..<13]
       \<and> length del_mes = k
       \<and> distinct (map g_Anio del_mes)
       \<and> sorted (map g_Anio del_mes)
       \<and> (k = 0 \<longrightarrow> map_of (promedios_por_mes en g) m = Some 0)
       \<and> (1 \<le> k \<longrightarrow> map_of (promedios_por_mes en g) m
              = Some (dividir en (suma_media en (map Ventas_Mensuales del_mes)) k))"
proof -
  have len: "length del_mes = k"
    unfolding del_mes_def k_def g_def by (rule anios_del_mes(1))
  have dis: "distinct (map g_Anio del_mes)"
    unfolding del_mes_def g_def by (rule anios_del_mes(2))
  have sor: "sorted (map g_Anio del_mes)"
    unfolding del_mes_def g_def by (rule anios_del_mes(3))
  have k0: "k = 0 \<longleftrightarrow> m \<notin> g_Mes ` set g"
    unfolding len [symmetric] del_mes_def by (auto simp: filter_empty_conv)
  have a: "map fst (promedios_por_mes en g) = [1..<13]" by (rule map_fst_promedios)
  have b: "k = 0 \<longrightarrow> map_of (promedios_por_mes en g) m = Some 0"
    using k0 by (simp add: map_of_promedios [OF m])
  have c: "1 \<le> k \<longrightarrow> map_of (promedios_por_mes en g) m
              = Some (dividir en (suma_media en (map Ventas_Mensuales del_mes)) k)"
  proof
    assume "1 \<le> k"
    then have "m \<in> g_Mes ` set g" using k0 by auto
    then show "map_of (promedios_por_mes en g) m
                 = Some (dividir en (suma_media en (map Ventas_Mensuales del_mes)) k)"
      unfolding len [symmetric]
      by (simp add: map_of_promedios [OF m] media_def del_mes_def)
  qed
  from a len dis sor b c show ?thesis by blast
qed

text \<open>
  On the example, in exact arithmetic: January has totals in two years, 150 and 300,
  and averages (150 + 300) / 2; February has none and averages 0.
\<close>

theorem C2_witness:
  "(1::nat) \<in> {1..12} \<and> (2::nat) \<in> {1..12} \<and>
   ventas_mensuales_agrupadas exacta (preprocesar ejemplo) =
     [\<lparr>g_Anio = 2023, g_Mes = 1, Ventas_Mensuales = 150,
       Fecha_Mes = \<lparr>year = 2023, month = 1, day = 1\<rparr>\<rparr>,
      \<lparr>g_Anio = 2024, g_Mes = 1, Ventas_Mensuales = 300,
       Fecha_Mes = \<lparr>year = 2024, month = 1, day = 1\<rparr>\<rparr>] \<and>
   map_of (promedios_por_mes exacta (ventas_mensuales_agrupadas exacta (preprocesar ejemplo))) 1
     = Some ((150 + 300) / 2) \<and>
   map_of (promedios_por_mes exacta (ventas_mensuales_agrupadas exacta (preprocesar ejemplo))) 2
     = Some 0"
proof -
  let ?g = "ventas_mensuales_agrupadas exacta (preprocesar ejemplo)"
  have g: "?g =
     [\<lparr>g_Anio = 2023, g_Mes = 1, Ventas_Mensuales = 150,
       Fecha_Mes = \<lparr>year = 2023, month = 1, day = 1\<rparr>\<rparr>,
      \<lparr>g_Anio = 2024, g_Mes = 1, Ventas_Mensuales = 300,
       Fecha_Mes = \<lparr>year = 2024, month = 1, day = 1\<rparr>\<rparr>]"
    by code_simp
  have m1: "(1::nat) \<in> {1..12}" and m2: "(2::nat) \<in> {1..12}" by simp_all
  have f1: "{x \<in> set ?g. g_Mes x = 1} = set ?g" unfolding g by auto
  have f2: "{x \<in> set ?g. g_Mes x = 2} = {}" unfolding g by auto
  have k1: "card (g_Anio ` {x \<in> set ?g. g_Mes x = 1}) = 2"
    unfolding f1 unfolding g by simp
  have k2: "card (g_Anio ` {x \<in> set ?g. g_Mes x = 2}) = 0"
    unfolding f2 by simp
  have t1: "dividir exacta (suma_media exacta (map Ventas_Mensuales (filter (\<lambda>x. g_Mes x = 1) ?g))) 2
              = (150 + 300) / 2"
    unfolding g by (simp add: exacta_def)
  from C2_promedio_por_mes [OF m1, of exacta "preprocesar ejemplo"] k1 t1
  have a: "map_of (promedios_por_mes exacta ?g) 1 = Some ((150 + 300) / 2)" by simp
  from C2_promedio_por_mes [OF m2, of exacta "preprocesar ejemplo"] k2
  have b: "map_of (promedios_por_mes exacta ?g) 2 = Some 0" by simp
  from m1 m2 g a b show ?thesis by blast
qed

subsection \<open>Cascade Resolver\<close>

text \<open>
  C3. The three option lists follow the order country, client, product. The country
  list is the same for any two selections; the client list is the same for two
  selections with the same countries; the product list is the same for two selections
  with the same countries and the same clients. Each list is sorted and free of
  duplicates, and its entries are exactly the non-missing values of its column: over
  all rows for the countries, over the rows passing the country selection (all rows
  when it is empty) for the clients, and over the rows passing the country and the
  client selection for the products.
\<close>

theorem C3_cascada_orden:
  "fst (cascada df sel) = fst (cascada df sel')
   \<and> (sel_paises sel = sel_paises sel' \<longrightarrow>
        fst (snd (cascada df sel)) = fst (snd (cascada df sel')))
   \<and> (sel_paises sel = sel_paises sel' \<and> sel_clientes sel = sel_clientes sel' \<longrightarrow>
        snd (snd (cascada df sel)) = snd (snd (cascada df sel')))
   \<and> (case cascada df sel of (ps, cs, xs) \<Rightarrow>
        sorted ps \<and> distinct ps \<and> set (map Some ps) = set (map PAIS df) - {None}
      \<and> sorted cs \<and> distinct cs
      \<and> set (map Some cs) =
          set (map CLIENTE
                (filter (\<lambda>r. sel_paises sel = [] \<or> isin (PAIS r) (sel_paises sel)) df)) - {None}
      \<and> sorted xs \<and> distinct xs
      \<and> set (map Some xs) =
          set (map PRODUCTO
                (filter (\<lambda>r. (sel_paises sel = [] \<or> isin (PAIS r) (sel_paises sel))
                            \<and> (sel_clientes sel = [] \<or> isin (CLIENTE r) (sel_clientes sel))) df))
          - {None})"
proof -
  have a: "fst (cascada df sel) = fst (cascada df sel')"
    by (simp add: cascada_def)
  have b: "sel_paises sel = sel_paises sel' \<longrightarrow>
        fst (snd (cascada df sel)) = fst (snd (cascada df sel'))"
    by (simp add: cascada_def)
  have c: "sel_paises sel = sel_paises sel' \<and> sel_clientes sel = sel_clientes sel' \<longrightarrow>
        snd (snd (cascada df sel)) = snd (snd (cascada df sel'))"
    by (simp add: cascada_def)
  have p: "sorted (todos_paises df) \<and> distinct (todos_paises df)
        \<and> set (map Some (todos_paises df)) = set (map PAIS df) - {None}"
    unfolding todos_paises_def
    by (simp only: sorted_opciones distinct_opciones some_set_opciones simp_thms)
  have cl: "sorted (clientes_disponibles df sp) \<and> distinct (clientes_disponibles df sp)
        \<and> set (map Some (clientes_disponibles df sp)) =
           set (map CLIENTE (filter (\<lambda>r. sp = [] \<or> isin (PAIS r) sp) df)) - {None}" for sp
    unfolding clientes_disponibles_def df_filtrado_pais_filter
    by (simp only: sorted_opciones distinct_opciones some_set_opciones simp_thms)
  have pr: "sorted (productos_disponibles df sp sc) \<and> distinct (productos_disponibles df sp sc)
        \<and> set (map Some (productos_disponibles df sp sc)) =
           set (map PRODUCTO (filter (\<lambda>r. (sp = [] \<or> isin (PAIS r) sp)
                                        \<and> (sc = [] \<or> isin (CLIENTE r) sc)) df)) - {None}" for sp sc
    unfolding productos_disponibles_def df_filtrado_cliente_filter
    by (simp only: sorted_opciones distinct_opciones some_set_opciones simp_thms)
  have d: "case cascada df sel of (ps, cs, xs) \<Rightarrow>
        sorted ps \<and> distinct ps \<and> set (map Some ps) = set (map PAIS df) - {None}
      \<and> sorted cs \<and> distinct cs
      \<and> set (map Some cs) =
          set (map CLIENTE
                (filter (\<lambda>r. sel_paises sel = [] \<or> isin (PAIS r) (sel_paises sel)) df)) - {None}
      \<and> sorted xs \<and> distinct xs
      \<and> set (map Some xs) =
          set (map PRODUCTO
                (filter (\<lambda>r. (sel_paises sel = [] \<or> isin (PAIS r) (sel_paises sel))
                            \<and> (sel_clientes sel = [] \<or> isin (CLIENTE r) (sel_clientes sel))) df))
          - {None}"
    unfolding cascada_def prod.case
    using p cl [of "sel_paises sel"] pr [of "sel_paises sel" "sel_clientes sel"] by blast
  from a b c d show ?thesis by blast
qed

text \<open>
  Five rows, one without a country and one without a product. Selecting the product X
  after the country US changes none of the three lists; with nothing selected the
  client without a country is still offered.
\<close>

theorem C3_witness:
  "sel_paises sel_US = sel_paises sel_US_X \<and> sel_clientes sel_US = sel_clientes sel_US_X \<and>
   cascada (preprocesar datos_cascada) sel_US = ([''PE'', ''US''], [''A''], [''X'']) \<and>
   cascada (preprocesar datos_cascada) sel_US_X = ([''PE'', ''US''], [''A''], [''X'']) \<and>
   cascada (preprocesar datos_cascada) sin_filtros =
     ([''PE'', ''US''], [''A'', ''B'', ''C''], [''X'', ''Z''])"
proof -
  have h1: "sel_paises sel_US = sel_paises sel_US_X" by (simp add: sel_US_def sel_US_X_def)
  have h2: "sel_clientes sel_US = sel_clientes sel_US_X" by (simp add: sel_US_def sel_US_X_def)
  have e1: "cascada (preprocesar datos_cascada) sel_US = ([''PE'', ''US''], [''A''], [''X''])"
    by code_simp
  have e3: "cascada (preprocesar datos_cascada) sin_filtros =
              ([''PE'', ''US''], [''A'', ''B'', ''C''], [''X'', ''Z''])"
    by code_simp
  from C3_cascada_orden [of "preprocesar datos_cascada" sel_US sel_US_X] h1 h2
  have "cascada (preprocesar datos_cascada) sel_US_X = cascada (preprocesar datos_cascada) sel_US"
    by (simp add: prod_eq_iff)
  with h1 h2 e1 e3 show ?thesis by simp
qed

subsection \<open>Filter Applicator\<close>

text \<open>
  C5. When the final filter leaves no row, the run stops after a message and computes
  no monthly totals, averages or forecast: the message of line 101 when the sheet has
  rows, the message of line 30 when the sheet itself is empty.
\<close>

theorem C5_filtro_sin_filas_detiene:
  "df_filtrado (preprocesar datos) sel = [] \<Longrightarrow>
   pipeline en datos sel = Stopped (if datos = [] then DataFrame_vacio else Sin_datos)"
  by (simp add: pipeline_def Let_def)

text \<open>The example with country US and client B selected: no such client exists.\<close>

theorem C5_witness:
  "df_filtrado (preprocesar ejemplo) sel_US_B = [] \<and>
   pipeline exacta ejemplo sel_US_B = Stopped Sin_datos"
proof -
  have h: "df_filtrado (preprocesar ejemplo) sel_US_B = []" by code_simp
  have "ejemplo \<noteq> []" by (simp add: ejemplo_def)
  with C5_filtro_sin_filas_detiene [OF h, of exacta] h show ?thesis by simp
qed

text \<open>
  C6. With the three selections empty the final filter returns the whole frame: the same
  rows, in the same order, with the same field values.
\<close>

theorem C6_filtro_vacio_identidad:
  "df_filtrado df \<lparr>sel_paises = [], sel_clientes = [], sel_productos = []\<rparr> = df"
  by (simp add: df_filtrado_def)

subsection \<open>Rows without a date\<close>

text \<open>
  C7. The run on the example with two more sales, in PE and in MX, both with a blank
  date, and the countries PE and MX selected. The filter keeps these two rows, so the
  emptiness check of line 100 does not stop the run. The grouping then has no group,
  the largest year and the target year are NaN, and the run ends in the exception
  raised for the date string \<^verbatim>\<open>nan-01-01\<close>: the script has no check of its own
  for a filtered frame without dates.
\<close>

theorem C7_sin_fechas_validas:
  "df_filtrado (preprocesar (ejemplo @ [venta_PE_sin_fecha, venta_MX_sin_fecha])) sel_PE_MX
     = preprocesar [venta_PE_sin_fecha, venta_MX_sin_fecha] \<and>
   map FECHA (preprocesar [venta_PE_sin_fecha, venta_MX_sin_fecha]) = [None, None] \<and>
   ventas_mensuales_agrupadas en (preprocesar [venta_PE_sin_fecha, venta_MX_sin_fecha]) = [] \<and>
   mas_uno (ultimo_ano (anio_dtype (ejemplo @ [venta_PE_sin_fecha, venta_MX_sin_fecha]))
     (ventas_mensuales_agrupadas en (preprocesar [venta_PE_sin_fecha, venta_MX_sin_fecha]))) = NaN \<and>
   pipeline en (ejemplo @ [venta_PE_sin_fecha, venta_MX_sin_fecha]) sel_PE_MX = Raised ValueError"
proof -
  let ?d = "ejemplo @ [venta_PE_sin_fecha, venta_MX_sin_fecha]"
  let ?f = "preprocesar [venta_PE_sin_fecha, venta_MX_sin_fecha]"
  have a: "df_filtrado (preprocesar ?d) sel_PE_MX = ?f"
    by code_simp
  have b: "map FECHA ?f = [None, None]"
    by code_simp
  have "claves ?f = []"
    by code_simp
  then have c: "ventas_mensuales_agrupadas en ?f = []"
    by (simp add: ventas_mensuales_agrupadas_def)
  have d: "mas_uno (ultimo_ano (anio_dtype ?d) (ventas_mensuales_agrupadas en ?f)) = NaN"
    unfolding c by (simp add: ultimo_ano_def)
  have n: "df_filtrado (preprocesar ?d) sel_PE_MX \<noteq> []"
    unfolding a by (simp add: preprocesar_def)
  have m: "None \<in> set (map FECHA ?d)"
    by (simp add: venta_PE_sin_fecha_def)
  have e: "pipeline en ?d sel_PE_MX = Raised ValueError"
    using n m by (rule sin_fechas_excepcion)
  from a b c d e show ?thesis by (intro conjI)
qed

subsection \<open>Rows without a category\<close>

text \<open>
  C8. Every entry of the three option lists is a non-missing value of its column, so a
  missing country, client or product is never offered. A row of the sheet that has a
  date and satisfies every non-empty selection (whatever its missing categories) is in
  the group of its year and month, and the monthly totals hold the entry of that year
  and month whose total is the sum of the amounts of the group.
\<close>

theorem C8_nulos_categoricos:
  fixes en :: "('a, 'b) entorno" and datos sel v d
  defines "df \<equiv> preprocesar datos"
  defines "f \<equiv> df_filtrado df sel"
  assumes v: "v \<in> set datos" and fecha: "FECHA v = Some d" and pasa: "cumple (derivar v) sel"
  shows "(case cascada df sel of (ps, cs, xs) \<Rightarrow>
            set (map Some ps) \<subseteq> set (map PAIS df) - {None}
          \<and> set (map Some cs) \<subseteq> set (map CLIENTE df) - {None}
          \<and> set (map Some xs) \<subseteq> set (map PRODUCTO df) - {None})
       \<and> derivar v \<in> set (grupo f (year d, month d))
       \<and> \<lparr>g_Anio = year d, g_Mes = month d,
           Ventas_Mensuales = suma en (map TOTAL_VENDIDO (grupo f (year d, month d))),
           Fecha_Mes = \<lparr>year = year d, month = month d, day = 1\<rparr>\<rparr>
           \<in> set (ventas_mensuales_agrupadas en f)"
proof -
  have o: "set (map Some (opciones (map c (filter P df)))) \<subseteq> set (map c df) - {None}"
    for c :: "'a fila \<Rightarrow> string option" and P
    unfolding some_set_opciones by auto
  have a: "set (map Some (todos_paises df)) \<subseteq> set (map PAIS df) - {None}"
    using o [of PAIS "\<lambda>_. True"] by (simp add: todos_paises_def)
  have b: "set (map Some (clientes_disponibles df (sel_paises sel))) \<subseteq> set (map CLIENTE df) - {None}"
    unfolding clientes_disponibles_def df_filtrado_pais_filter by (rule o)
  have c: "set (map Some (productos_disponibles df (sel_paises sel) (sel_clientes sel)))
             \<subseteq> set (map PRODUCTO df) - {None}"
    unfolding productos_disponibles_def df_filtrado_cliente_filter by (rule o)
  have inf: "derivar v \<in> set f"
    using v pasa by (simp add: f_def df_def df_filtrado_filter preprocesar_def)
  have k: "clave (derivar v) = Some (year d, month d)"
    by (simp add: clave_derivar fecha)
  have g: "derivar v \<in> set (grupo f (year d, month d))"
    using inf k by (simp add: grupo_def)
  from a b c g agrupadas_fila [OF inf k] show ?thesis
    by (simp add: cascada_def)
qed

text \<open>
  A sale of 40 in February 2023 with no country, and no filter selected: the option
  lists show no missing value, and the total of February 2023 is this sale.
\<close>

theorem C8_witness:
  "venta_sin_pais \<in> set datos_cascada \<and>
   FECHA venta_sin_pais = Some \<lparr>year = 2023, month = 2, day = 10\<rparr> \<and>
   PAIS venta_sin_pais = None \<and>
   cumple (derivar venta_sin_pais) sin_filtros \<and>
   cascada (preprocesar datos_cascada) sin_filtros =
     ([''PE'', ''US''], [''A'', ''B'', ''C''], [''X'', ''Z'']) \<and>
   \<lparr>g_Anio = 2023, g_Mes = 2, Ventas_Mensuales = 40,
     Fecha_Mes = \<lparr>year = 2023, month = 2, day = 1\<rparr>\<rparr>
     \<in> set (ventas_mensuales_agrupadas exacta (df_filtrado (preprocesar datos_cascada) sin_filtros))"
proof -
  have h1: "venta_sin_pais \<in> set datos_cascada" by (simp add: datos_cascada_def)
  have h2: "FECHA venta_sin_pais = Some \<lparr>year = 2023, month = 2, day = 10\<rparr>"
    by (simp add: venta_sin_pais_def)
  have h3: "cumple (derivar venta_sin_pais) sin_filtros"
    by (simp add: cumple_def sin_filtros_def)
  have e1: "PAIS venta_sin_pais = None" by (simp add: venta_sin_pais_def)
  have e2: "cascada (preprocesar datos_cascada) sin_filtros =
              ([''PE'', ''US''], [''A'', ''B'', ''C''], [''X'', ''Z''])"
    by code_simp
  have e3: "suma exacta (map TOTAL_VENDIDO
              (grupo (df_filtrado (preprocesar datos_cascada) sin_filtros) (2023, 2))) = 40"
    by code_simp
  from C8_nulos_categoricos [OF h1 h2 h3, of exacta] e3
  have "\<lparr>g_Anio = 2023, g_Mes = 2, Ventas_Mensuales = 40,
         Fecha_Mes = \<lparr>year = 2023, month = 2, day = 1\<rparr>\<rparr>
     \<in> set (ventas_mensuales_agrupadas exacta (df_filtrado (preprocesar datos_cascada) sin_filtros))"
    by simp
  with h1 h2 h3 e1 e2 show ?thesis by blast
qed

subsection \<open>Derived columns\<close>

text \<open>
  C9. Adding the month and year columns keeps every row and its five loaded fields:
  dropping the two new columns gives back the sheet, row by row, and the new columns
  hold the month and the year of the row's own date (missing when the date is). The
  only later stage that yields rows, the final filter, selects rows of this frame and
  changes none.
\<close>

theorem C9_campos_intactos:
  "map venta.truncate (preprocesar datos) = datos \<and>
   map Mes (preprocesar datos) = map (\<lambda>v. map_option month (FECHA v)) datos \<and>
   map Anio (preprocesar datos) = map (\<lambda>v. map_option year (FECHA v)) datos \<and>
   df_filtrado (preprocesar datos) sel = filter (\<lambda>r. cumple r sel) (preprocesar datos)"
proof -
  have t: "venta.truncate (derivar v) = v" for v
    by (simp add: derivar_def venta.defs fila.defs)
  have m: "Mes (derivar v) = map_option month (FECHA v)" for v
    by (simp add: derivar_def dt_month_def venta.defs fila.defs)
  have a: "Anio (derivar v) = map_option year (FECHA v)" for v
    by (simp add: derivar_def dt_year_def venta.defs fila.defs)
  have "map venta.truncate (preprocesar datos) = datos"
    by (simp add: preprocesar_def comp_def t)
  moreover have "map Mes (preprocesar datos) = map (\<lambda>v. map_option month (FECHA v)) datos"
    by (simp add: preprocesar_def comp_def m)
  moreover have "map Anio (preprocesar datos) = map (\<lambda>v. map_option year (FECHA v)) datos"
    by (simp add: preprocesar_def comp_def a)
  ultimately show ?thesis by (simp add: df_filtrado_filter)
qed

subsection \<open>Rows excluded by the filter\<close>

text \<open>
  C10. The example with the country US selected, before and after a sale in PE with a
  blank date is appended. The new row fails the country selection. Without it the run
  completes with the forecast for 2025; with it the year column is of dtype float, the
  target year prints as \<^verbatim>\<open>2025.0\<close>, and the run ends in the exception raised for
  that date string.
\<close>

theorem C10_fila_excluida_influye:
  "\<not> cumple (derivar venta_PE_sin_fecha) sel_US \<and>
   pipeline en (ejemplo @ [venta_PE_sin_fecha]) sel_US = Raised ValueError \<and>
   pipeline en ejemplo sel_US = Completed
     \<lparr>historico =
        [\<lparr>g_Anio = 2023, g_Mes = 1, Ventas_Mensuales = suma en [100, 50],
          Fecha_Mes = \<lparr>year = 2023, month = 1, day = 1\<rparr>\<rparr>,
         \<lparr>g_Anio = 2024, g_Mes = 1, Ventas_Mensuales = suma en [300],
          Fecha_Mes = \<lparr>year = 2024, month = 1, day = 1\<rparr>\<rparr>],
      promedios =
        [(1, dividir en (suma_media en [suma en [100, 50], suma en [300]]) 2),
         (2, 0), (3, 0), (4, 0), (5, 0), (6, 0), (7, 0), (8, 0), (9, 0), (10, 0), (11, 0), (12, 0)],
      pronostico =
        [\<lparr>p_Fecha_Mes = \<lparr>year = 2025, month = 1, day = 1\<rparr>, p_Mes = 1,
          Pronostico = Some (dividir en (suma_media en [suma en [100, 50], suma en [300]]) 2)\<rparr>,
         \<lparr>p_Fecha_Mes = \<lparr>year = 2025, month = 2, day = 1\<rparr>, p_Mes = 2, Pronostico = Some 0\<rparr>,
         \<lparr>p_Fecha_Mes = \<lparr>year = 2025, month = 3, day = 1\<rparr>, p_Mes = 3, Pronostico = Some 0\<rparr>,
         \<lparr>p_Fecha_Mes = \<lparr>year = 2025, month = 4, day = 1\<rparr>, p_Mes = 4, Pronostico = Some 0\<rparr>,
         \<lparr>p_Fecha_Mes = \<lparr>year = 2025, month = 5, day = 1\<rparr>, p_Mes = 5, Pronostico = Some 0\<rparr>,
         \<lparr>p_Fecha_Mes = \<lparr>year = 2025, month = 6, day = 1\<rparr>, p_Mes = 6, Pronostico = Some 0\<rparr>,
         \<lparr>p_Fecha_Mes = \<lparr>year = 2025, month = 7, day = 1\<rparr>, p_Mes = 7, Pronostico = Some 0\<rparr>,
         \<lparr>p_Fecha_Mes = \<lparr>year = 2025, month = 8, day = 1\<rparr>, p_Mes = 8, Pronostico = Some 0\<rparr>,
         \<lparr>p_Fecha_Mes = \<lparr>year = 2025, month = 9, day = 1\<rparr>, p_Mes = 9, Pronostico = Some 0\<rparr>,
         \<lparr>p_Fecha_Mes = \<lparr>year = 2025, month = 10, day = 1\<rparr>, p_Mes = 10, Pronostico = Some 0\<rparr>,
         \<lparr>p_Fecha_Mes = \<lparr>year = 2025, month = 11, day = 1\<rparr>, p_Mes = 11, Pronostico = Some 0\<rparr>,
         \<lparr>p_Fecha_Mes = \<lparr>year = 2025, month = 12, day = 1\<rparr>, p_Mes = 12, Pronostico = Some 0\<rparr>]\<rparr>"
proof -
  let ?d = "ejemplo @ [venta_PE_sin_fecha]"
  have a: "\<not> cumple (derivar venta_PE_sin_fecha) sel_US"
    by code_simp
  have "df_filtrado (preprocesar ?d) sel_US = df_filtrado (preprocesar ejemplo) sel_US"
    using a by (rule fila_excluida_filtrado)
  then have n: "df_filtrado (preprocesar ?d) sel_US \<noteq> []"
    unfolding ej_filtros by (simp add: preprocesar_def ejemplo_def)
  have m: "None \<in> set (map FECHA ?d)"
    by (simp add: venta_PE_sin_fecha_def)
  have b: "pipeline en ?d sel_US = Raised ValueError"
    using n m by (rule sin_fechas_excepcion)
  from a b ej_completo [OF ej_filtros(2), of en] show ?thesis by (intro conjI)
qed

end
